theory Spec2Isabelle
  imports Complex_Main
begin

section \<open>Events, world state and outcomes\<close>

text \<open>
  The program drives hardware through library calls and reads sensors. Every such call
  is recorded as an event appended to a trace; sensor inputs come from the environment
  as sequences indexed by the number of reads made so far. Python floats are idealised
  as real numbers and Python ints are unbounded integers.
\<close>

definition TRIG :: nat where "TRIG = 17"
definition ECHO :: nat where "ECHO = 13"
definition BUZZER_PIN :: nat where "BUZZER_PIN = 27"
definition BUTTON_PIN :: nat where "BUTTON_PIN = 18"

datatype event =
    GpioOutput nat bool
  | Sleep real
  | Espeak string
  | BuzzerStart nat
  | BuzzerStop

datatype error = UnboundLocalError | AttributeError

datatype edge = FALLING | RISING | BOTH

record pwm =
  pwm_pin :: nat
  pwm_freq :: nat

record registration =
  reg_pin :: nat
  reg_edge :: edge
  bouncetime :: nat

record world =
  active :: bool
  buzzer :: "pwm option"
  detect :: "registration option"
  lastcall :: "real option"
  color_seq :: "nat \<Rightarrow> int \<times> int \<times> int"
  color_reads :: nat
  echo_seq :: "nat \<Rightarrow> bool"
  echo_reads :: nat
  clock_seq :: "nat \<Rightarrow> real"
  clock_reads :: nat
  trace :: "event list"

datatype 'a outcome = Returns 'a world | Raises error world

definition emit :: "event \<Rightarrow> world \<Rightarrow> world" where
  "emit e w = w\<lparr>trace := trace w @ [e]\<rparr>"

section \<open>Distance to beep timing\<close>

definition BEEP_TABLE :: "(int \<times> real) list" where
  "BEEP_TABLE =
     [(150, 1.25),
      (120, 1.00),
      (90, 0.75),
      (60, 0.50),
      (30, 0.25),
      (0, 0.07)]"

text \<open>
  The \<open>for threshold, t in BEEP_TABLE\<close> loop of \<open>beep_for_distance\<close>: the first entry
  with \<open>dist >= threshold\<close> ends the loop; without a match the loop runs off the table.
  The parameter \<open>dist\<close> of the source is written \<open>d\<close> (\<open>dist\<close> is the metric of HOL).
\<close>

fun beep_match :: "(int \<times> real) list \<Rightarrow> real \<Rightarrow> (int \<times> real) option" where
  "beep_match [] d = None"
| "beep_match ((threshold, t) # rest) d =
     (if d \<ge> of_int threshold then Some (threshold, t) else beep_match rest d)"

text \<open>The value of the local \<open>wait_time\<close> after the loop (\<open>None\<close> as in the source).\<close>

definition wait_time :: "real \<Rightarrow> real option" where
  "wait_time d = map_option snd (beep_match BEEP_TABLE d)"

definition beep_for_distance :: "real \<Rightarrow> world \<Rightarrow> unit outcome" where
  "beep_for_distance d w =
     (case wait_time d of
        None \<Rightarrow> Returns () w
      | Some t \<Rightarrow>
          (let w1 = emit (Sleep t) w in
           case buzzer w1 of
             None \<Rightarrow> Raises AttributeError w1
           | Some p \<Rightarrow>
               Returns () (emit BuzzerStop (emit (Sleep 0.1) (emit (BuzzerStart 10) w1)))))"

section \<open>Colour classification\<close>

definition RED_W :: real where "RED_W = 1.20"
definition GREEN_W :: real where "GREEN_W = 0.35"
definition BLUE_W :: real where "BLUE_W = 0.05"

definition COLOR_MAP :: "(string \<times> (int \<times> int \<times> int)) list" where
  "COLOR_MAP =
     [(''red'', (255, 0, 0)),
      (''orange'', (255, 128, 0)),
      (''yellow'', (255, 255, 0)),
      (''green'', (0, 255, 0)),
      (''blue'', (0, 0, 255)),
      (''indigo'', (127, 0, 255)),
      (''violet'', (255, 0, 255)),
      (''white'', (255, 255, 255))]"

text \<open>
  The body of the loop of \<open>closest_color\<close> up to the local \<open>dist\<close>: the weighted
  Euclidean distance of the sample \<open>(r, g, b)\<close> to the reference \<open>(rr, gg, bb)\<close>.
  Samples are the byte triples delivered by \<open>color_rgb_bytes\<close>; for them the float
  computation stays far from overflow. Here the arithmetic is read without rounding,
  over the reals; the reading with rounding is \<open>fl_color_dist\<close> below.
\<close>

fun color_dist :: "int \<times> int \<times> int \<Rightarrow> int \<times> int \<times> int \<Rightarrow> real" where
  "color_dist (rr, gg, bb) (r, g, b) =
     (let dr = of_int (rr - r) * RED_W;
          dg = of_int (gg - g) * GREEN_W;
          db = of_int (bb - b) * BLUE_W
      in sqrt (dr\<^sup>2 + dg\<^sup>2 + db\<^sup>2))"

text \<open>
  \<open>best_dist\<close> starts as \<open>float("inf")\<close>, written \<open>None\<close>: every distance is below it.
\<close>

fun below :: "real \<Rightarrow> real option \<Rightarrow> bool" where
  "below x None = True"
| "below x (Some y) = (x < y)"

fun closest_scan ::
  "(string \<times> (int \<times> int \<times> int)) list \<Rightarrow> int \<times> int \<times> int \<Rightarrow>
     string \<times> real option \<Rightarrow> string \<times> real option" where
  "closest_scan [] rgb (best_name, best_dist) = (best_name, best_dist)"
| "closest_scan ((name, ref) # rest) rgb (best_name, best_dist) =
     (if below (color_dist ref rgb) best_dist
      then closest_scan rest rgb (name, Some (color_dist ref rgb))
      else closest_scan rest rgb (best_name, best_dist))"

definition closest_color :: "int \<times> int \<times> int \<Rightarrow> string" where
  "closest_color rgb = fst (closest_scan COLOR_MAP rgb (''unknown'', None))"

subsection \<open>The scan over floating-point arithmetic\<close>

text \<open>
  \<open>closest_color\<close> computes in Python floats: the weights are float literals, the
  integer differences are converted, and product, square, sum and square root are
  each rounded. Rounding can separate two distances that are equal over the reals, or
  merge two that differ, so which references tie depends on it. The operations are
  therefore taken as a parameter: \<open>fl_color_dist ops\<close> is the expression of the source
  with every float operation read through \<open>ops\<close>, and \<open>fl_closest_scan ops\<close> is the
  loop over it. The floats themselves are the real numbers they denote; the distances
  are finite and their comparison is exact. \<open>exact_ops\<close> is the reading without
  rounding, under which these are \<open>color_dist\<close> and \<open>closest_scan\<close> above.
\<close>

record float_ops =
  fl_lit :: "real \<Rightarrow> real"
  fl_of_int :: "int \<Rightarrow> real"
  fl_mul :: "real \<Rightarrow> real \<Rightarrow> real"
  fl_pow2 :: "real \<Rightarrow> real"
  fl_add :: "real \<Rightarrow> real \<Rightarrow> real"
  fl_sqrt :: "real \<Rightarrow> real"

definition exact_ops :: float_ops where
  "exact_ops =
     \<lparr>fl_lit = (\<lambda>x. x), fl_of_int = of_int, fl_mul = (\<lambda>x y. x * y),
      fl_pow2 = (\<lambda>x. x\<^sup>2), fl_add = (\<lambda>x y. x + y), fl_sqrt = sqrt\<rparr>"

fun fl_color_dist :: "float_ops \<Rightarrow> int \<times> int \<times> int \<Rightarrow> int \<times> int \<times> int \<Rightarrow> real" where
  "fl_color_dist ops (rr, gg, bb) (r, g, b) =
     (let dr = fl_mul ops (fl_of_int ops (rr - r)) (fl_lit ops 1.20);
          dg = fl_mul ops (fl_of_int ops (gg - g)) (fl_lit ops 0.35);
          db = fl_mul ops (fl_of_int ops (bb - b)) (fl_lit ops 0.05)
      in fl_sqrt ops (fl_add ops (fl_add ops (fl_pow2 ops dr) (fl_pow2 ops dg)) (fl_pow2 ops db)))"

fun fl_closest_scan ::
  "float_ops \<Rightarrow> (string \<times> (int \<times> int \<times> int)) list \<Rightarrow> int \<times> int \<times> int \<Rightarrow>
     string \<times> real option \<Rightarrow> string \<times> real option" where
  "fl_closest_scan ops [] rgb (best_name, best_dist) = (best_name, best_dist)"
| "fl_closest_scan ops ((name, ref) # rest) rgb (best_name, best_dist) =
     (if below (fl_color_dist ops ref rgb) best_dist
      then fl_closest_scan ops rest rgb (name, Some (fl_color_dist ops ref rgb))
      else fl_closest_scan ops rest rgb (best_name, best_dist))"

definition fl_closest_color :: "float_ops \<Rightarrow> int \<times> int \<times> int \<Rightarrow> string" where
  "fl_closest_color ops rgb = fst (fl_closest_scan ops COLOR_MAP rgb (''unknown'', None))"

subsection \<open>The diagnostic copy in tools/test_color.py\<close>

definition tool_RED_W :: real where "tool_RED_W = 1.20"
definition tool_GREEN_W :: real where "tool_GREEN_W = 0.35"
definition tool_BLUE_W :: real where "tool_BLUE_W = 0.05"

definition tool_COLOR_MAP :: "(string \<times> (int \<times> int \<times> int)) list" where
  "tool_COLOR_MAP =
     [(''red'', (255, 0, 0)),
      (''orange'', (255, 128, 0)),
      (''yellow'', (255, 255, 0)),
      (''green'', (0, 255, 0)),
      (''blue'', (0, 0, 255)),
      (''indigo'', (127, 0, 255)),
      (''violet'', (255, 0, 255)),
      (''white'', (255, 255, 255)),
      (''black'', (0, 0, 0))]"

fun tool_color_dist :: "int \<times> int \<times> int \<Rightarrow> int \<times> int \<times> int \<Rightarrow> real" where
  "tool_color_dist (rr, gg, bb) (r, g, b) =
     (let dr = of_int (rr - r) * tool_RED_W;
          dg = of_int (gg - g) * tool_GREEN_W;
          db = of_int (bb - b) * tool_BLUE_W
      in sqrt (dr\<^sup>2 + dg\<^sup>2 + db\<^sup>2))"

fun tool_closest_scan ::
  "(string \<times> (int \<times> int \<times> int)) list \<Rightarrow> int \<times> int \<times> int \<Rightarrow>
     string \<times> real option \<Rightarrow> string \<times> real option" where
  "tool_closest_scan [] rgb (best, best_dist) = (best, best_dist)"
| "tool_closest_scan ((name, ref) # rest) rgb (best, best_dist) =
     (if below (tool_color_dist ref rgb) best_dist
      then tool_closest_scan rest rgb (name, Some (tool_color_dist ref rgb))
      else tool_closest_scan rest rgb (best, best_dist))"

definition tool_closest_color :: "int \<times> int \<times> int \<Rightarrow> string" where
  "tool_closest_color rgb = fst (tool_closest_scan tool_COLOR_MAP rgb (''unknown'', None))"

section \<open>Hardware setup and the toggle button\<close>

text \<open>
  \<open>setup_gpio\<close> creates the PWM object of the buzzer, registers \<open>on_button\<close> for
  falling edges of the button pin with \<open>bouncetime=200\<close>, drives the trigger low and
  sleeps. Pin directions have no further role in the model.
\<close>

definition setup_gpio :: "world \<Rightarrow> world" where
  "setup_gpio w =
     emit (Sleep 0.1)
       (emit (GpioOutput TRIG False)
          (w\<lparr>buzzer := Some \<lparr>pwm_pin = BUZZER_PIN, pwm_freq = 440\<rparr>,
             detect := Some \<lparr>reg_pin = BUTTON_PIN, reg_edge = FALLING, bouncetime = 200\<rparr>\<rparr>))"

definition on_button :: "nat \<Rightarrow> world \<Rightarrow> world" where
  "on_button channel w = w\<lparr>active := \<not> active w\<rparr>"

text \<open>
  Modelled from the spec: the edge dispatcher of the GPIO library, which is not part of
  the sources. A falling edge of the registered pin at time \<open>now\<close> (in milliseconds)
  runs the callback once, unless it arrives within the debounce window of the
  registration after the last accepted edge, in which case it is suppressed. Nothing is
  queued. Before \<open>setup_gpio\<close> no callback is registered and edges are ignored.
\<close>

definition button_edge :: "real \<Rightarrow> world \<Rightarrow> world" where
  "button_edge now w =
     (case detect w of
        None \<Rightarrow> w
      | Some reg \<Rightarrow>
          (case lastcall w of
             None \<Rightarrow> on_button (reg_pin reg) (w\<lparr>lastcall := Some now\<rparr>)
           | Some t \<Rightarrow>
               if now - t > real (bouncetime reg)
               then on_button (reg_pin reg) (w\<lparr>lastcall := Some now\<rparr>)
               else w))"

section \<open>Sensor interfaces\<close>

text \<open>
  \<open>GPIO.input(ECHO)\<close>, \<open>time.time()\<close> and \<open>color_sensor.color_rgb_bytes\<close> take the next
  value of the environment's sequence.
\<close>

definition gpio_input_echo :: "world \<Rightarrow> bool \<times> world" where
  "gpio_input_echo w = (echo_seq w (echo_reads w), w\<lparr>echo_reads := Suc (echo_reads w)\<rparr>)"

definition time_time :: "world \<Rightarrow> real \<times> world" where
  "time_time w = (clock_seq w (clock_reads w), w\<lparr>clock_reads := Suc (clock_reads w)\<rparr>)"

definition color_rgb_bytes :: "world \<Rightarrow> (int \<times> int \<times> int) \<times> world" where
  "color_rgb_bytes w = (color_seq w (color_reads w), w\<lparr>color_reads := Suc (color_reads w)\<rparr>)"

definition speak :: "string \<Rightarrow> world \<Rightarrow> world" where
  "speak text w = emit (Espeak text) w"

text \<open>
  The two busy-wait loops of \<open>distance_cm\<close>. Each carries the local it assigns
  (\<open>None\<close> while unbound) and may spin forever, in which case it has no value.
\<close>

partial_function (option) wait_echo_low :: "real option \<Rightarrow> world \<Rightarrow> (real option \<times> world) option" where
  "wait_echo_low pulse_start w =
     (if fst (gpio_input_echo w) = False
      then wait_echo_low (Some (fst (time_time (snd (gpio_input_echo w)))))
             (snd (time_time (snd (gpio_input_echo w))))
      else Some (pulse_start, snd (gpio_input_echo w)))"

partial_function (option) wait_echo_high :: "real option \<Rightarrow> world \<Rightarrow> (real option \<times> world) option" where
  "wait_echo_high pulse_end w =
     (if fst (gpio_input_echo w) = True
      then wait_echo_high (Some (fst (time_time (snd (gpio_input_echo w)))))
             (snd (time_time (snd (gpio_input_echo w))))
      else Some (pulse_end, snd (gpio_input_echo w)))"

definition distance_cm :: "world \<Rightarrow> real outcome option" where
  "distance_cm w =
     (let w1 = emit (GpioOutput TRIG True) w;
          w2 = emit (Sleep 0.00001) w1;
          w3 = emit (GpioOutput TRIG False) w2
      in case wait_echo_low None w3 of
           None \<Rightarrow> None
         | Some (pulse_start, w4) \<Rightarrow>
             (case wait_echo_high None w4 of
                None \<Rightarrow> None
              | Some (pulse_end, w5) \<Rightarrow>
                  (case pulse_end of
                     None \<Rightarrow> Some (Raises UnboundLocalError w5)
                   | Some e \<Rightarrow>
                       (case pulse_start of
                          None \<Rightarrow> Some (Raises UnboundLocalError w5)
                        | Some s \<Rightarrow> Some (Returns ((e - s) * 17150.0) w5)))))"

subsection \<open>The diagnostic copy in tools/test_ultrasonic.py\<close>

definition tool_TRIG :: nat where "tool_TRIG = 17"
definition tool_ECHO :: nat where "tool_ECHO = 13"

partial_function (option) tool_wait_echo_low :: "real option \<Rightarrow> world \<Rightarrow> (real option \<times> world) option" where
  "tool_wait_echo_low start w =
     (if fst (gpio_input_echo w) = False
      then tool_wait_echo_low (Some (fst (time_time (snd (gpio_input_echo w)))))
             (snd (time_time (snd (gpio_input_echo w))))
      else Some (start, snd (gpio_input_echo w)))"

partial_function (option) tool_wait_echo_high :: "real option \<Rightarrow> world \<Rightarrow> (real option \<times> world) option" where
  "tool_wait_echo_high end w =
     (if fst (gpio_input_echo w) = True
      then tool_wait_echo_high (Some (fst (time_time (snd (gpio_input_echo w)))))
             (snd (time_time (snd (gpio_input_echo w))))
      else Some (end, snd (gpio_input_echo w)))"

definition tool_distance_cm :: "world \<Rightarrow> real outcome option" where
  "tool_distance_cm w =
     (let w1 = emit (GpioOutput tool_TRIG True) w;
          w2 = emit (Sleep 0.00001) w1;
          w3 = emit (GpioOutput tool_TRIG False) w2
      in case tool_wait_echo_low None w3 of
           None \<Rightarrow> None
         | Some (start, w4) \<Rightarrow>
             (case tool_wait_echo_high None w4 of
                None \<Rightarrow> None
              | Some (end, w5) \<Rightarrow>
                  (case end of
                     None \<Rightarrow> Some (Raises UnboundLocalError w5)
                   | Some e \<Rightarrow>
                       (case start of
                          None \<Rightarrow> Some (Raises UnboundLocalError w5)
                        | Some s \<Rightarrow> Some (Returns ((e - s) * 17150.0) w5)))))"

section \<open>Main control loop\<close>

text \<open>
  One pass through the body of \<open>while True\<close>. The flag is read once, at the top. A pass
  has no value when the distance measurement never returns.
\<close>

definition main_iter :: "world \<Rightarrow> unit outcome option" where
  "main_iter w =
     (if \<not> active w then Some (Returns () (emit (Sleep 0.1) w))
      else
        (let (rgb, w1) = color_rgb_bytes w;
             color_name = closest_color rgb;
             w2 = speak color_name w1
         in case distance_cm w2 of
              None \<Rightarrow> None
            | Some (Raises err w3) \<Rightarrow> Some (Raises err w3)
            | Some (Returns d w3) \<Rightarrow> Some (beep_for_distance d w3)))"

text \<open>The first \<open>n\<close> passes of the loop, stopping at an exception.\<close>

fun main_iters :: "nat \<Rightarrow> world \<Rightarrow> unit outcome option" where
  "main_iters 0 w = Some (Returns () w)"
| "main_iters (Suc n) w =
     (case main_iter w of
        None \<Rightarrow> None
      | Some (Raises err w') \<Rightarrow> Some (Raises err w')
      | Some (Returns u w') \<Rightarrow> main_iters n w')"

section \<open>Auxiliary notions for the proofs\<close>

text \<open>The module's globals at start-up, over given sensor sequences.\<close>

definition initial ::
  "(nat \<Rightarrow> int \<times> int \<times> int) \<Rightarrow> (nat \<Rightarrow> bool) \<Rightarrow> (nat \<Rightarrow> real) \<Rightarrow> world" where
  "initial colors echo clock =
     \<lparr>active = True, buzzer = None, detect = None, lastcall = None,
      color_seq = colors, color_reads = 0,
      echo_seq = echo, echo_reads = 0,
      clock_seq = clock, clock_reads = 0,
      trace = []\<rparr>"

text \<open>
  With the weights \<open>24/20\<close>, \<open>7/20\<close> and \<open>1/20\<close>, the square of the weighted distance is
  this integer divided by 400; comparisons of distances are comparisons of it.
\<close>

fun sqd :: "int \<times> int \<times> int \<Rightarrow> int \<times> int \<times> int \<Rightarrow> int" where
  "sqd (rr, gg, bb) (r, g, b) = 576 * (rr - r)\<^sup>2 + 49 * (gg - g)\<^sup>2 + (bb - b)\<^sup>2"

text \<open>Entry \<open>j\<close> of a table is the earliest one at minimal distance from the sample.\<close>

definition first_min ::
  "(string \<times> (int \<times> int \<times> int)) list \<Rightarrow> int \<times> int \<times> int \<Rightarrow> nat \<Rightarrow> bool" where
  "first_min tbl rgb j \<longleftrightarrow>
     j < length tbl \<and>
     (\<forall>k<length tbl. color_dist (snd (tbl ! j)) rgb \<le> color_dist (snd (tbl ! k)) rgb) \<and>
     (\<forall>k<j. color_dist (snd (tbl ! j)) rgb < color_dist (snd (tbl ! k)) rgb)"

section \<open>The beep table\<close>

text \<open>
  C1 (as amended). At the sample distances the resolved delay is the one of the first
  entry whose threshold the distance reaches: 1.25 at 200, 0.75 at 100, 0.50 at 75,
  0.25 at 45, 0.07 at 20, and no delay at all at -5.
\<close>

theorem wait_time_samples:
  "wait_time 200 = Some 1.25 \<and> wait_time 100 = Some 0.75 \<and> wait_time 75 = Some 0.50 \<and>
   wait_time 45 = Some 0.25 \<and> wait_time 20 = Some 0.07 \<and> wait_time (- 5) = None"
  by (simp add: wait_time_def BEEP_TABLE_def)

text \<open>
  The values tabulated for 100, 75, 45, 20 and -5 (1.00, 0.75, 0.50, 0.25 and 0.07)
  are not the ones resolved.
\<close>

theorem wait_time_samples_counterexample:
  "wait_time 100 \<noteq> Some 1.00 \<and> wait_time 75 \<noteq> Some 0.75 \<and> wait_time 45 \<noteq> Some 0.50 \<and>
   wait_time 20 \<noteq> Some 0.25 \<and> wait_time (- 5) \<noteq> Some 0.07"
  by (simp add: wait_time_def BEEP_TABLE_def)

text \<open>
  C2 (as amended). Every non-negative distance matches an entry of the table and
  resolves that entry's delay; every negative distance matches no entry and resolves
  no delay.
\<close>

theorem wait_time_resolved:
  "(0 \<le> d \<longrightarrow> (\<exists>e \<in> set BEEP_TABLE. beep_match BEEP_TABLE d = Some e \<and> wait_time d = Some (snd e))) \<and>
   (d < 0 \<longrightarrow> beep_match BEEP_TABLE d = None \<and> wait_time d = None)"
  by (simp add: wait_time_def BEEP_TABLE_def)

theorem wait_time_resolved_witness:
  "(0::real) \<le> 25 \<and> wait_time 25 = Some 0.07 \<and> (- 1 :: real) < 0 \<and> wait_time (- 1) = None"
proof -
  from wait_time_resolved [of 25]
  obtain e where "e \<in> set BEEP_TABLE" and "beep_match BEEP_TABLE 25 = Some e"
    and w: "wait_time 25 = Some (snd e)"
    by auto
  then have "e = (0, 0.07)" by (simp add: BEEP_TABLE_def)
  with w have "wait_time 25 = Some 0.07" by simp
  moreover from wait_time_resolved [of "- 1"] have "wait_time (- 1) = None" by simp
  ultimately show ?thesis by simp
qed

text \<open>A negative distance resolves no delay, so not the shortest one either.\<close>

theorem wait_time_resolved_counterexample:
  "wait_time (- 1) = None \<and> wait_time (- 1) \<noteq> Some 0.07"
  by (simp add: wait_time_def BEEP_TABLE_def)

text \<open>
  C5. For distances \<open>d1 < d2\<close> that select different entries of the table, the delay
  resolved for \<open>d1\<close> is at most the delay resolved for \<open>d2\<close>.
\<close>

theorem wait_time_monotone:
  "d1 < d2 \<Longrightarrow> beep_match BEEP_TABLE d1 = Some e1 \<Longrightarrow> beep_match BEEP_TABLE d2 = Some e2 \<Longrightarrow>
   e1 \<noteq> e2 \<Longrightarrow>
   wait_time d1 = Some (snd e1) \<and> wait_time d2 = Some (snd e2) \<and> snd e1 \<le> snd e2"
  by (auto simp add: wait_time_def BEEP_TABLE_def split: if_splits)

theorem wait_time_monotone_witness:
  "(20::real) < 100 \<and> beep_match BEEP_TABLE 20 = Some (0, 0.07) \<and>
   beep_match BEEP_TABLE 100 = Some (90, 0.75) \<and>
   wait_time 20 = Some 0.07 \<and> wait_time 100 = Some 0.75 \<and> (0.07::real) \<le> 0.75"
proof -
  have a: "beep_match BEEP_TABLE 20 = Some (0, 0.07)" by (simp add: BEEP_TABLE_def)
  have b: "beep_match BEEP_TABLE 100 = Some (90, 0.75)" by (simp add: BEEP_TABLE_def)
  have c: "(20::real) < 100" by simp
  have d: "((0::int), (0.07::real)) \<noteq> (90, 0.75)" by simp
  from wait_time_monotone [OF c a b d] a b c show ?thesis by simp
qed

text \<open>
  C10. For a strictly negative distance no entry of the table is selected,
  \<open>wait_time\<close> stays \<open>None\<close> and \<open>beep_for_distance\<close> returns at once: the world,
  and with it the trace of sleeps and buzzer calls, is unchanged.
\<close>

theorem beep_for_distance_negative:
  "d < 0 \<Longrightarrow>
   beep_match BEEP_TABLE d = None \<and> wait_time d = None \<and> beep_for_distance d w = Returns () w"
  by (simp add: beep_for_distance_def wait_time_def BEEP_TABLE_def)

theorem beep_for_distance_negative_witness:
  "(- 5 :: real) < 0 \<and> wait_time (- 5) = None \<and>
   beep_for_distance (- 5) (setup_gpio (initial (\<lambda>n. (0, 255, 0)) (\<lambda>n. n = 1) (\<lambda>n. real n))) =
     Returns () (setup_gpio (initial (\<lambda>n. (0, 255, 0)) (\<lambda>n. n = 1) (\<lambda>n. real n)))"
proof -
  have neg: "(- 5 :: real) < 0" by simp
  from beep_for_distance_negative [OF neg] neg show ?thesis by simp
qed

section \<open>The classifier\<close>

lemma color_dist_sqd: "color_dist ref rgb = sqrt (of_int (sqd ref rgb) / 400)"
proof -
  obtain rr gg bb where r: "ref = (rr, gg, bb)" by (cases ref) auto
  obtain r g b where s: "rgb = (r, g, b)" by (cases rgb) auto
  have "(of_int (rr - r) * (6/5 :: real))\<^sup>2 + (of_int (gg - g) * (7/20))\<^sup>2 + (of_int (bb - b) * (1/20))\<^sup>2
      = of_int (576 * (rr - r)\<^sup>2 + 49 * (gg - g)\<^sup>2 + (bb - b)\<^sup>2) / 400"
    by (simp add: power2_eq_square field_simps)
  then show ?thesis
    by (simp add: r s RED_W_def GREEN_W_def BLUE_W_def)
qed

lemma color_dist_less: "color_dist a rgb < color_dist b rgb \<longleftrightarrow> sqd a rgb < sqd b rgb"
  by (simp add: color_dist_sqd del: sqd.simps)



lemma closest_scan_append:
  "closest_scan (xs @ ys) rgb acc = closest_scan ys rgb (closest_scan xs rgb acc)"
proof (induction xs arbitrary: acc)
  case Nil
  show ?case by (cases acc) simp
next
  case (Cons x xs)
  obtain name ref where x: "x = (name, ref)" by (cases x)
  obtain bn bd where acc: "acc = (bn, bd)" by (cases acc)
  show ?case by (simp add: x acc Cons.IH del: color_dist.simps)
qed

lemma closest_scan_first_min:
  assumes "tbl \<noteq> []"
  shows "\<exists>j. first_min tbl rgb j \<and>
           closest_scan tbl rgb (n0, None) = (fst (tbl ! j), Some (color_dist (snd (tbl ! j)) rgb))"
  using assms
proof (induction tbl rule: rev_nonempty_induct)
  case (single x)
  obtain name ref where x: "x = (name, ref)" by (cases x)
  have "first_min [x] rgb 0" by (simp add: first_min_def)
  moreover have "closest_scan [x] rgb (n0, None) = (fst ([x] ! 0), Some (color_dist (snd ([x] ! 0)) rgb))"
    by (simp add: x del: color_dist.simps)
  ultimately show ?case by blast
next
  case (snoc x xs)
  obtain name ref where x: "x = (name, ref)" by (cases x)
  from snoc.IH obtain j where fm: "first_min xs rgb j"
    and sc: "closest_scan xs rgb (n0, None) = (fst (xs ! j), Some (color_dist (snd (xs ! j)) rgb))"
    by blast
  from fm have jl: "j < length xs"
    and jmin: "\<And>k. k < length xs \<Longrightarrow> color_dist (snd (xs ! j)) rgb \<le> color_dist (snd (xs ! k)) rgb"
    and jfirst: "\<And>k. k < j \<Longrightarrow> color_dist (snd (xs ! j)) rgb < color_dist (snd (xs ! k)) rgb"
    by (auto simp: first_min_def)
  show ?case
  proof (cases "color_dist ref rgb < color_dist (snd (xs ! j)) rgb")
    case True
    have "first_min (xs @ [x]) rgb (length xs)"
      unfolding first_min_def
    proof (intro conjI allI impI)
      show "length xs < length (xs @ [x])" by simp
    next
      fix k assume "k < length (xs @ [x])"
      then consider "k < length xs" | "k = length xs" by force
      then show "color_dist (snd ((xs @ [x]) ! length xs)) rgb \<le> color_dist (snd ((xs @ [x]) ! k)) rgb"
      proof cases
        case 1
        with jmin [OF 1] True show ?thesis by (simp add: nth_append x del: color_dist.simps)
      next
        case 2
        then show ?thesis by simp
      qed
    next
      fix k assume k: "k < length xs"
      with jmin [OF k] True
      show "color_dist (snd ((xs @ [x]) ! length xs)) rgb < color_dist (snd ((xs @ [x]) ! k)) rgb"
        by (simp add: nth_append x del: color_dist.simps)
    qed
    moreover have "closest_scan (xs @ [x]) rgb (n0, None) =
        (fst ((xs @ [x]) ! length xs), Some (color_dist (snd ((xs @ [x]) ! length xs)) rgb))"
      using True by (simp add: closest_scan_append sc x del: color_dist.simps)
    ultimately show ?thesis by blast
  next
    case False
    have "first_min (xs @ [x]) rgb j"
      unfolding first_min_def
    proof (intro conjI allI impI)
      show "j < length (xs @ [x])" using jl by simp
    next
      fix k assume "k < length (xs @ [x])"
      then consider "k < length xs" | "k = length xs" by force
      then show "color_dist (snd ((xs @ [x]) ! j)) rgb \<le> color_dist (snd ((xs @ [x]) ! k)) rgb"
      proof cases
        case 1
        with jmin [OF 1] jl show ?thesis by (simp add: nth_append del: color_dist.simps)
      next
        case 2
        with False jl show ?thesis by (simp add: nth_append x del: color_dist.simps)
      qed
    next
      fix k assume k: "k < j"
      with jfirst [OF k] jl
      show "color_dist (snd ((xs @ [x]) ! j)) rgb < color_dist (snd ((xs @ [x]) ! k)) rgb"
        by (simp add: nth_append del: color_dist.simps)
    qed
    moreover have "closest_scan (xs @ [x]) rgb (n0, None) =
        (fst ((xs @ [x]) ! j), Some (color_dist (snd ((xs @ [x]) ! j)) rgb))"
      using False jl by (simp add: closest_scan_append sc x nth_append del: color_dist.simps)
    ultimately show ?thesis by blast
  qed
qed

lemma COLOR_MAP_nonempty: "COLOR_MAP \<noteq> []"
  by (simp add: COLOR_MAP_def)

lemma fl_color_dist_exact: "fl_color_dist exact_ops ref rgb = color_dist ref rgb"
  by (cases ref; cases rgb) (simp add: exact_ops_def RED_W_def GREEN_W_def BLUE_W_def)

lemma fl_closest_scan_exact: "fl_closest_scan exact_ops tbl rgb acc = closest_scan tbl rgb acc"
proof (induction tbl arbitrary: acc)
  case Nil
  show ?case by (cases acc) simp
next
  case (Cons x xs)
  obtain name ref where x: "x = (name, ref)" by (cases x)
  obtain bn bd where acc: "acc = (bn, bd)" by (cases acc)
  show ?case
    by (simp add: x acc Cons.IH fl_color_dist_exact del: color_dist.simps fl_color_dist.simps)
qed

lemma fl_closest_color_exact: "fl_closest_color exact_ops rgb = closest_color rgb"
  by (simp add: fl_closest_color_def closest_color_def fl_closest_scan_exact)

lemma fl_closest_scan_append:
  "fl_closest_scan ops (xs @ ys) rgb acc = fl_closest_scan ops ys rgb (fl_closest_scan ops xs rgb acc)"
proof (induction xs arbitrary: acc)
  case Nil
  show ?case by (cases acc) simp
next
  case (Cons x xs)
  obtain name ref where x: "x = (name, ref)" by (cases x)
  obtain bn bd where acc: "acc = (bn, bd)" by (cases acc)
  show ?case by (simp add: x acc Cons.IH del: fl_color_dist.simps)
qed

lemma fl_closest_scan_first:
  assumes "tbl \<noteq> []"
  shows "\<exists>j<length tbl.
     fl_closest_scan ops tbl rgb (n0, None) =
       (fst (tbl ! j), Some (fl_color_dist ops (snd (tbl ! j)) rgb)) \<and>
     (\<forall>k<length tbl. fl_color_dist ops (snd (tbl ! j)) rgb \<le> fl_color_dist ops (snd (tbl ! k)) rgb) \<and>
     (\<forall>k<j. fl_color_dist ops (snd (tbl ! j)) rgb < fl_color_dist ops (snd (tbl ! k)) rgb)"
  using assms
proof (induction tbl rule: rev_nonempty_induct)
  case (single x)
  obtain name ref where x: "x = (name, ref)" by (cases x)
  have "fl_closest_scan ops [x] rgb (n0, None) =
      (fst ([x] ! 0), Some (fl_color_dist ops (snd ([x] ! 0)) rgb))"
    by (simp add: x del: fl_color_dist.simps)
  then show ?case by simp
next
  case (snoc x xs)
  let ?D = "\<lambda>e. fl_color_dist ops (snd e) rgb"
  obtain name ref where x: "x = (name, ref)" by (cases x)
  from snoc.IH obtain j where jl: "j < length xs"
    and sc: "fl_closest_scan ops xs rgb (n0, None) = (fst (xs ! j), Some (?D (xs ! j)))"
    and jmin: "\<And>k. k < length xs \<Longrightarrow> ?D (xs ! j) \<le> ?D (xs ! k)"
    and jfirst: "\<And>k. k < j \<Longrightarrow> ?D (xs ! j) < ?D (xs ! k)"
    by blast
  have step: "fl_closest_scan ops (xs @ [x]) rgb (n0, None) =
      (if ?D x < ?D (xs ! j) then (fst x, Some (?D x)) else (fst (xs ! j), Some (?D (xs ! j))))"
    by (simp add: fl_closest_scan_append sc x del: fl_color_dist.simps)
  show ?case
  proof (cases "?D x < ?D (xs ! j)")
    case True
    have "fl_closest_scan ops (xs @ [x]) rgb (n0, None) =
        (fst ((xs @ [x]) ! length xs), Some (?D ((xs @ [x]) ! length xs)))"
      using True step by simp
    moreover have "?D ((xs @ [x]) ! length xs) \<le> ?D ((xs @ [x]) ! k)" if "k < length (xs @ [x])" for k
    proof (cases "k < length xs")
      case True
      with jmin [OF True] \<open>?D x < ?D (xs ! j)\<close> show ?thesis by (simp add: nth_append)
    next
      case False
      with that have "k = length xs" by simp
      then show ?thesis by simp
    qed
    moreover have "?D ((xs @ [x]) ! length xs) < ?D ((xs @ [x]) ! k)" if "k < length xs" for k
      using jmin [OF that] True that by (simp add: nth_append)
    ultimately show ?thesis
      by (intro exI [of _ "length xs"]) simp
  next
    case False
    have "fl_closest_scan ops (xs @ [x]) rgb (n0, None) =
        (fst ((xs @ [x]) ! j), Some (?D ((xs @ [x]) ! j)))"
      using False step jl by (simp add: nth_append)
    moreover have "?D ((xs @ [x]) ! j) \<le> ?D ((xs @ [x]) ! k)" if "k < length (xs @ [x])" for k
    proof (cases "k < length xs")
      case True
      with jmin [OF True] jl show ?thesis by (simp add: nth_append)
    next
      case nk: False
      with that have "k = length xs" by simp
      with False jl show ?thesis by (simp add: nth_append)
    qed
    moreover have "?D ((xs @ [x]) ! j) < ?D ((xs @ [x]) ! k)" if "k < j" for k
      using jfirst [OF that] that jl by (simp add: nth_append)
    ultimately show ?thesis
      using jl by (intro exI [of _ j]) simp
  qed
qed

lemma fl_closest_color_strict_min:
  assumes i: "i < length COLOR_MAP"
    and strict: "\<And>k. k < length COLOR_MAP \<Longrightarrow> k \<noteq> i \<Longrightarrow>
      fl_color_dist ops (snd (COLOR_MAP ! i)) rgb < fl_color_dist ops (snd (COLOR_MAP ! k)) rgb"
  shows "fl_closest_color ops rgb = fst (COLOR_MAP ! i)"
proof -
  from fl_closest_scan_first [OF COLOR_MAP_nonempty, of ops rgb "''unknown''"]
  obtain j where jl: "j < length COLOR_MAP"
    and res: "fl_closest_scan ops COLOR_MAP rgb (''unknown'', None) =
       (fst (COLOR_MAP ! j), Some (fl_color_dist ops (snd (COLOR_MAP ! j)) rgb))"
    and jmin: "\<And>k. k < length COLOR_MAP \<Longrightarrow>
      fl_color_dist ops (snd (COLOR_MAP ! j)) rgb \<le> fl_color_dist ops (snd (COLOR_MAP ! k)) rgb"
    by blast
  have "j = i"
  proof (rule ccontr)
    assume "j \<noteq> i"
    from strict [OF jl this] jmin [OF i] show False by simp
  qed
  with res show ?thesis by (simp add: fl_closest_color_def)
qed


lemma closest_scan_names:
  "(fst (closest_scan tbl rgb (n0, None)) \<in> fst ` set tbl) = (tbl \<noteq> [])" if "n0 \<notin> fst ` set tbl"
proof (cases "tbl = []")
  case True
  then show ?thesis by simp
next
  case False
  from closest_scan_first_min [OF False, of rgb n0]
  obtain j where "first_min tbl rgb j"
    and "closest_scan tbl rgb (n0, None) = (fst (tbl ! j), Some (color_dist (snd (tbl ! j)) rgb))"
    by blast
  then have "j < length tbl" and "fst (closest_scan tbl rgb (n0, None)) = fst (tbl ! j)"
    by (simp_all add: first_min_def)
  then show ?thesis using False by (metis image_eqI nth_mem)
qed

text \<open>
  C3. For every entry of \<open>COLOR_MAP\<close>, the reference triple itself is classified as
  that entry's name; in particular \<open>(255, 0, 0)\<close> is red and \<open>(255, 255, 255)\<close> is
  white.
\<close>

theorem closest_color_exact:
  "(\<forall>(name, rgb) \<in> set COLOR_MAP. closest_color rgb = name) \<and>
   closest_color (255, 0, 0) = ''red'' \<and> closest_color (255, 255, 255) = ''white''"
  by (simp add: closest_color_def COLOR_MAP_def color_dist_less del: color_dist.simps)

theorem closest_color_exact_witness:
  "(''green'', (0, 255, 0)) \<in> set COLOR_MAP \<and> closest_color (0, 255, 0) = ''green''"
proof -
  have m: "(''green'', (0, 255, 0)) \<in> set COLOR_MAP" by (simp add: COLOR_MAP_def)
  with closest_color_exact show ?thesis by blast
qed


text \<open>
  C8. With the fixed table the result is always the name of a table entry and never the
  sentinel; over any table that does not itself use the name, the scan yields the
  sentinel exactly when the table is empty. \<open>closest_color\<close> is a total function of the
  sample: one result for each input, and no error branch.
\<close>

theorem closest_color_in_table:
  "closest_color rgb \<in> fst ` set COLOR_MAP \<and> closest_color rgb \<noteq> ''unknown'' \<and>
   (\<forall>tbl. ''unknown'' \<notin> fst ` set tbl \<longrightarrow>
      (fst (closest_scan tbl rgb (''unknown'', None)) = ''unknown'') = (tbl = []))"
proof -
  have nu: "''unknown'' \<notin> fst ` set COLOR_MAP" by (simp add: COLOR_MAP_def)
  from closest_scan_names [OF nu, of rgb] COLOR_MAP_nonempty
  have mem: "closest_color rgb \<in> fst ` set COLOR_MAP" by (simp add: closest_color_def)
  with nu have ne: "closest_color rgb \<noteq> ''unknown''" by metis
  have "(fst (closest_scan tbl rgb (''unknown'', None)) = ''unknown'') = (tbl = [])"
    if "''unknown'' \<notin> fst ` set tbl" for tbl
  proof (cases "tbl = []")
    case True
    then show ?thesis by simp
  next
    case False
    with closest_scan_names [OF that, of rgb]
    have "fst (closest_scan tbl rgb (''unknown'', None)) \<in> fst ` set tbl" by simp
    with that False show ?thesis by metis
  qed
  with mem ne show ?thesis by blast
qed

theorem closest_color_in_table_witness:
  "''unknown'' \<notin> fst ` set [(''black'', (0::int, 0::int, 0::int))] \<and>
   fst (closest_scan [(''black'', (0, 0, 0))] (10, 20, 30) (''unknown'', None)) \<noteq> ''unknown'' \<and>
   closest_color (10, 20, 30) \<in> fst ` set COLOR_MAP"
proof -
  have a: "''unknown'' \<notin> fst ` set [(''black'', (0::int, 0::int, 0::int))]" by simp
  from closest_color_in_table [of "(10, 20, 30)"] a show ?thesis by blast
qed

section \<open>The diagnostic tools against the main program\<close>

lemma tool_color_dist_eq: "tool_color_dist ref rgb = color_dist ref rgb"
  by (cases ref; cases rgb)
     (simp add: tool_RED_W_def tool_GREEN_W_def tool_BLUE_W_def RED_W_def GREEN_W_def BLUE_W_def)

lemma tool_closest_scan_eq: "tool_closest_scan tbl rgb acc = closest_scan tbl rgb acc"
proof (induction tbl arbitrary: acc)
  case Nil
  show ?case by (cases acc) simp
next
  case (Cons x xs)
  obtain name ref where x: "x = (name, ref)" by (cases x)
  obtain bn bd where acc: "acc = (bn, bd)" by (cases acc)
  show ?case
    by (simp add: x acc Cons.IH tool_color_dist_eq del: color_dist.simps tool_color_dist.simps)
qed

lemma tool_COLOR_MAP_eq: "tool_COLOR_MAP = COLOR_MAP @ [(''black'', (0, 0, 0))]"
  by (simp add: tool_COLOR_MAP_def COLOR_MAP_def)

lemma wait_echo_low_tool: "wait_echo_low s w = Some y \<Longrightarrow> tool_wait_echo_low s w = Some y"
proof (rule wait_echo_low.raw_induct [where P = "\<lambda>s w y. tool_wait_echo_low s w = Some y"])
  fix f s' w' y'
  assume ih: "\<And>s w y. f s w = Some y \<Longrightarrow> tool_wait_echo_low s w = Some y"
    and step: "(if fst (gpio_input_echo w') = False
      then f (Some (fst (time_time (snd (gpio_input_echo w')))))
             (snd (time_time (snd (gpio_input_echo w'))))
      else Some (s', snd (gpio_input_echo w'))) = Some y'"
  show "tool_wait_echo_low s' w' = Some y'"
    using ih step by (subst tool_wait_echo_low.simps) (auto split: if_splits)
qed

lemma tool_wait_echo_low_main: "tool_wait_echo_low s w = Some y \<Longrightarrow> wait_echo_low s w = Some y"
proof (rule tool_wait_echo_low.raw_induct [where P = "\<lambda>s w y. wait_echo_low s w = Some y"])
  fix f s' w' y'
  assume ih: "\<And>s w y. f s w = Some y \<Longrightarrow> wait_echo_low s w = Some y"
    and step: "(if fst (gpio_input_echo w') = False
      then f (Some (fst (time_time (snd (gpio_input_echo w')))))
             (snd (time_time (snd (gpio_input_echo w'))))
      else Some (s', snd (gpio_input_echo w'))) = Some y'"
  show "wait_echo_low s' w' = Some y'"
    using ih step by (subst wait_echo_low.simps) (auto split: if_splits)
qed

lemma tool_wait_echo_low_eq: "tool_wait_echo_low s w = wait_echo_low s w"
proof (cases "wait_echo_low s w")
  case None
  then show ?thesis
    by (cases "tool_wait_echo_low s w") (auto dest: tool_wait_echo_low_main)
next
  case (Some y)
  then show ?thesis by (simp add: wait_echo_low_tool)
qed

lemma wait_echo_high_tool: "wait_echo_high s w = Some y \<Longrightarrow> tool_wait_echo_high s w = Some y"
proof (rule wait_echo_high.raw_induct [where P = "\<lambda>s w y. tool_wait_echo_high s w = Some y"])
  fix f s' w' y'
  assume ih: "\<And>s w y. f s w = Some y \<Longrightarrow> tool_wait_echo_high s w = Some y"
    and step: "(if fst (gpio_input_echo w') = True
      then f (Some (fst (time_time (snd (gpio_input_echo w')))))
             (snd (time_time (snd (gpio_input_echo w'))))
      else Some (s', snd (gpio_input_echo w'))) = Some y'"
  show "tool_wait_echo_high s' w' = Some y'"
    using ih step by (subst tool_wait_echo_high.simps) (auto split: if_splits)
qed

lemma tool_wait_echo_high_main: "tool_wait_echo_high s w = Some y \<Longrightarrow> wait_echo_high s w = Some y"
proof (rule tool_wait_echo_high.raw_induct [where P = "\<lambda>s w y. wait_echo_high s w = Some y"])
  fix f s' w' y'
  assume ih: "\<And>s w y. f s w = Some y \<Longrightarrow> wait_echo_high s w = Some y"
    and step: "(if fst (gpio_input_echo w') = True
      then f (Some (fst (time_time (snd (gpio_input_echo w')))))
             (snd (time_time (snd (gpio_input_echo w'))))
      else Some (s', snd (gpio_input_echo w'))) = Some y'"
  show "wait_echo_high s' w' = Some y'"
    using ih step by (subst wait_echo_high.simps) (auto split: if_splits)
qed

lemma tool_wait_echo_high_eq: "tool_wait_echo_high s w = wait_echo_high s w"
proof (cases "wait_echo_high s w")
  case None
  then show ?thesis
    by (cases "tool_wait_echo_high s w") (auto dest: tool_wait_echo_high_main)
next
  case (Some y)
  then show ?thesis by (simp add: wait_echo_high_tool)
qed

lemma tool_distance_cm_eq: "tool_distance_cm w = distance_cm w"
  unfolding tool_distance_cm_def distance_cm_def tool_wait_echo_low_eq tool_wait_echo_high_eq
    tool_TRIG_def TRIG_def
  by (rule refl)

lemma tool_closest_color_black:
  "tool_closest_color rgb =
     (if \<forall>e \<in> set COLOR_MAP. color_dist (0, 0, 0) rgb < color_dist (snd e) rgb
      then ''black'' else closest_color rgb)"
proof -
  from closest_scan_first_min [OF COLOR_MAP_nonempty, of rgb "''unknown''"]
  obtain j where fm: "first_min COLOR_MAP rgb j"
    and sc: "closest_scan COLOR_MAP rgb (''unknown'', None) =
           (fst (COLOR_MAP ! j), Some (color_dist (snd (COLOR_MAP ! j)) rgb))"
    by blast
  from fm have jl: "j < length COLOR_MAP"
    and jmin: "\<And>k. k < length COLOR_MAP \<Longrightarrow>
        color_dist (snd (COLOR_MAP ! j)) rgb \<le> color_dist (snd (COLOR_MAP ! k)) rgb"
    by (auto simp: first_min_def)
  have iff: "(\<forall>e \<in> set COLOR_MAP. color_dist (0, 0, 0) rgb < color_dist (snd e) rgb) \<longleftrightarrow>
      color_dist (0, 0, 0) rgb < color_dist (snd (COLOR_MAP ! j)) rgb"
  proof
    assume "\<forall>e \<in> set COLOR_MAP. color_dist (0, 0, 0) rgb < color_dist (snd e) rgb"
    with nth_mem [OF jl] show "color_dist (0, 0, 0) rgb < color_dist (snd (COLOR_MAP ! j)) rgb"
      by blast
  next
    assume lt: "color_dist (0, 0, 0) rgb < color_dist (snd (COLOR_MAP ! j)) rgb"
    show "\<forall>e \<in> set COLOR_MAP. color_dist (0, 0, 0) rgb < color_dist (snd e) rgb"
    proof
      fix e assume "e \<in> set COLOR_MAP"
      then obtain k where "k < length COLOR_MAP" and "e = COLOR_MAP ! k"
        by (auto simp: in_set_conv_nth)
      with jmin [of k] lt show "color_dist (0, 0, 0) rgb < color_dist (snd e) rgb" by simp
    qed
  qed
  have "tool_closest_color rgb =
      fst (closest_scan [(''black'', (0, 0, 0))] rgb (closest_scan COLOR_MAP rgb (''unknown'', None)))"
    by (simp add: tool_closest_color_def tool_closest_scan_eq tool_COLOR_MAP_eq closest_scan_append)
  also have "\<dots> = (if color_dist (0, 0, 0) rgb < color_dist (snd (COLOR_MAP ! j)) rgb
      then ''black'' else closest_color rgb)"
    by (simp add: sc closest_color_def del: color_dist.simps)
  finally show ?thesis by (simp only: iff)
qed

text \<open>
  C7 (as amended). The diagnostic \<open>distance_cm\<close> equals the main program's on every
  world. The diagnostic \<open>closest_color\<close> runs the same scan with the same weights over
  the main table extended by a ninth entry, black: it answers black exactly when black
  is strictly closer to the sample than every entry of the main table, and otherwise
  answers as the main program does.
\<close>

theorem tools_duplicate_main:
  "tool_distance_cm w = distance_cm w \<and>
   tool_COLOR_MAP = COLOR_MAP @ [(''black'', (0, 0, 0))] \<and>
   tool_closest_color rgb =
     (if \<forall>e \<in> set COLOR_MAP. color_dist (0, 0, 0) rgb < color_dist (snd e) rgb
      then ''black'' else closest_color rgb)"
  using tool_distance_cm_eq tool_COLOR_MAP_eq tool_closest_color_black by blast

text \<open>
  A dark sample is black for the diagnostic tool; a reddish one gets the main program's
  answer.
\<close>

theorem tools_duplicate_main_witness:
  "tool_closest_color (10, 10, 10) = ''black'' \<and>
   tool_closest_color (250, 10, 10) = closest_color (250, 10, 10)"
proof -
  have a: "\<forall>e \<in> set COLOR_MAP. color_dist (0, 0, 0) (10, 10, 10) < color_dist (snd e) (10, 10, 10)"
    by (simp add: COLOR_MAP_def color_dist_less del: color_dist.simps)
  have b: "\<not> (\<forall>e \<in> set COLOR_MAP. color_dist (0, 0, 0) (250, 10, 10) < color_dist (snd e) (250, 10, 10))"
    by (simp add: COLOR_MAP_def color_dist_less del: color_dist.simps)
  from tools_duplicate_main [of _ "(10, 10, 10)"] a
  have "tool_closest_color (10, 10, 10) = ''black''" by (simp del: color_dist.simps)
  moreover from tools_duplicate_main [of _ "(250, 10, 10)"] b
  have "tool_closest_color (250, 10, 10) = closest_color (250, 10, 10)"
    by (simp del: color_dist.simps)
  ultimately show ?thesis by simp
qed

text \<open>
  The two classifiers differ on the sample \<open>(0, 0, 0)\<close>: black for the tool, blue for
  the main program.
\<close>

theorem tools_duplicate_main_counterexample:
  "tool_closest_color (0, 0, 0) = ''black'' \<and> closest_color (0, 0, 0) = ''blue'' \<and>
   tool_closest_color (0, 0, 0) \<noteq> closest_color (0, 0, 0)"
  by (simp add: tool_closest_color_def tool_closest_scan_eq tool_COLOR_MAP_def
      closest_color_def COLOR_MAP_def color_dist_less del: color_dist.simps)

section \<open>The paused loop\<close>

lemma emit_active: "active (emit e w) = active w"
  by (simp add: emit_def)

lemma main_iter_paused: "\<not> active w \<Longrightarrow> main_iter w = Some (Returns () (emit (Sleep 0.1) w))"
  by (simp add: main_iter_def)

lemma main_iters_paused:
  "\<not> active w \<Longrightarrow> main_iters n w = Some (Returns () (w\<lparr>trace := trace w @ replicate n (Sleep 0.1)\<rparr>))"
proof (induction n arbitrary: w)
  case 0
  show ?case by simp
next
  case (Suc n)
  from Suc.prems have p: "\<not> active (emit (Sleep 0.1) w)" by (simp add: emit_active)
  have "main_iters (Suc n) w = main_iters n (emit (Sleep 0.1) w)"
    using Suc.prems by (simp add: main_iter_paused)
  also have "\<dots> = Some (Returns () ((emit (Sleep 0.1) w)
      \<lparr>trace := trace (emit (Sleep 0.1) w) @ replicate n (Sleep 0.1)\<rparr>))"
    by (rule Suc.IH [OF p])
  also have "(emit (Sleep 0.1) w)\<lparr>trace := trace (emit (Sleep 0.1) w) @ replicate n (Sleep 0.1)\<rparr>
      = w\<lparr>trace := trace w @ replicate (Suc n) (Sleep 0.1)\<rparr>"
    by (simp add: emit_def)
  finally show ?case .
qed

text \<open>
  C6. A pass of the main loop that reads the flag as false returns normally with the
  world changed by one idle sleep only: no sensor sequence is advanced, nothing is
  classified, spoken or sent to the buzzer, whatever the sensors would return. Any
  number of such passes in a row adds that many sleeps and nothing else.
\<close>

theorem paused_iteration_idle:
  "\<not> active w \<Longrightarrow>
   main_iter w = Some (Returns () (w\<lparr>trace := trace w @ [Sleep 0.1]\<rparr>)) \<and>
   main_iters n w = Some (Returns () (w\<lparr>trace := trace w @ replicate n (Sleep 0.1)\<rparr>))"
  by (simp add: main_iter_paused main_iters_paused emit_def)

text \<open>
  After set-up and one press of the button the program is paused; three passes add
  three sleeps to the trace of the set-up.
\<close>

theorem paused_iteration_idle_witness:
  "\<not> active (on_button BUTTON_PIN (setup_gpio (initial (\<lambda>n. (0, 255, 0)) (\<lambda>n. n = 1 \<or> n = 2) (\<lambda>n. real n / 1000)))) \<and>
   main_iters 3 (on_button BUTTON_PIN (setup_gpio (initial (\<lambda>n. (0, 255, 0)) (\<lambda>n. n = 1 \<or> n = 2) (\<lambda>n. real n / 1000)))) =
     Some (Returns () ((on_button BUTTON_PIN (setup_gpio (initial (\<lambda>n. (0, 255, 0)) (\<lambda>n. n = 1 \<or> n = 2) (\<lambda>n. real n / 1000))))
        \<lparr>trace := [GpioOutput TRIG False, Sleep 0.1, Sleep 0.1, Sleep 0.1, Sleep 0.1]\<rparr>))"
proof -
  let ?w = "on_button BUTTON_PIN (setup_gpio (initial (\<lambda>n. (0, 255, 0)) (\<lambda>n. n = 1 \<or> n = 2) (\<lambda>n. real n / 1000)))"
  have p: "\<not> active ?w" by (simp add: on_button_def setup_gpio_def initial_def emit_def)
  have t: "trace ?w = [GpioOutput TRIG False, Sleep 0.1]"
    by (simp add: on_button_def setup_gpio_def initial_def emit_def)
  have e: "trace ?w @ replicate 3 (Sleep 0.1) =
      [GpioOutput TRIG False, Sleep 0.1, Sleep 0.1, Sleep 0.1, Sleep 0.1]"
    unfolding t by (simp add: eval_nat_numeral)
  from paused_iteration_idle [OF p, of 3] have "main_iters 3 ?w =
      Some (Returns () (?w\<lparr>trace := trace ?w @ replicate 3 (Sleep 0.1)\<rparr>))" by blast
  then show ?thesis using p unfolding e by blast
qed

text \<open>
  For contrast, an active pass with a green sample and an echo of 25 cm reads both
  sensors, speaks, and pulses the buzzer after the delay of the 0 cm band.
\<close>

lemma active_pass_example:
  "(case main_iter (setup_gpio (initial (\<lambda>n. (0, 255, 0)) (\<lambda>n. n = 1 \<or> n = 2) (\<lambda>n. real n * 25 / 17150))) of
      Some (Returns u w') \<Rightarrow>
        trace w' =
          [GpioOutput TRIG False, Sleep 0.1, Espeak ''green'',
           GpioOutput TRIG True, Sleep 0.00001, GpioOutput TRIG False,
           Sleep 0.07, BuzzerStart 10, Sleep 0.1, BuzzerStop] \<and>
        color_reads w' = 1 \<and> echo_reads w' = 4 \<and> clock_reads w' = 2
    | _ \<Rightarrow> False)"
  by (simp add: main_iter_def setup_gpio_def initial_def emit_def color_rgb_bytes_def speak_def
     distance_cm_def wait_echo_low.simps wait_echo_high.simps gpio_input_echo_def time_time_def
     closest_color_def COLOR_MAP_def color_dist_less beep_for_distance_def wait_time_def BEEP_TABLE_def
     del: color_dist.simps)

section \<open>The toggle button\<close>

text \<open>
  C9. With the button registered as \<open>setup_gpio\<close> does, \<open>on_button\<close> applied twice gives
  back the original state; an accepted edge flips the flag; a second edge more than
  200 ms after it flips the flag back to its original value; an edge strictly inside
  the 200 ms after an accepted one is suppressed and changes nothing.
\<close>

theorem toggle_debounce:
  assumes "detect w = detect (setup_gpio w0)"
    and "lastcall w = None \<or> (\<exists>t0. lastcall w = Some t0 \<and> t0 + 200 < t1)"
  shows "on_button c2 (on_button c1 w) = w \<and>
     active (button_edge t1 w) = (\<not> active w) \<and>
     (t1 + 200 < t2 \<longrightarrow> active (button_edge t2 (button_edge t1 w)) = active w) \<and>
     (t1 \<le> t \<and> t < t1 + 200 \<longrightarrow> button_edge t (button_edge t1 w) = button_edge t1 w)"
proof -
  from assms(1) have d: "detect w = Some \<lparr>reg_pin = BUTTON_PIN, reg_edge = FALLING, bouncetime = 200\<rparr>"
    by (simp add: setup_gpio_def emit_def)
  have acc: "button_edge t1 w = on_button BUTTON_PIN (w\<lparr>lastcall := Some t1\<rparr>)"
    using assms(2) by (auto simp: button_edge_def d)
  have 1: "on_button c2 (on_button c1 w) = w" by (simp add: on_button_def)
  have 2: "active (button_edge t1 w) = (\<not> active w)" by (simp add: acc on_button_def)
  have 3: "active (button_edge t2 (button_edge t1 w)) = active w" if "t1 + 200 < t2"
    using that unfolding acc by (simp add: button_edge_def on_button_def d)
  have 4: "button_edge t (button_edge t1 w) = button_edge t1 w" if "t1 \<le> t \<and> t < t1 + 200"
    using that unfolding acc by (simp add: button_edge_def on_button_def d)
  from 1 2 3 4 show ?thesis by blast
qed

text \<open>
  From the state after set-up: an edge at 1000 ms pauses; an edge following it at
  1150 ms is suppressed; an edge following it at 1300 ms resumes.
\<close>

theorem toggle_debounce_witness:
  "active (button_edge 1300 (button_edge 1000 (setup_gpio (initial (\<lambda>n. (0, 0, 0)) (\<lambda>n. False) (\<lambda>n. 0))))) \<and>
   \<not> active (button_edge 1000 (setup_gpio (initial (\<lambda>n. (0, 0, 0)) (\<lambda>n. False) (\<lambda>n. 0)))) \<and>
   button_edge 1150 (button_edge 1000 (setup_gpio (initial (\<lambda>n. (0, 0, 0)) (\<lambda>n. False) (\<lambda>n. 0)))) =
     button_edge 1000 (setup_gpio (initial (\<lambda>n. (0, 0, 0)) (\<lambda>n. False) (\<lambda>n. 0)))"
proof -
  let ?w = "setup_gpio (initial (\<lambda>n. (0, 0, 0)) (\<lambda>n. False) (\<lambda>n. 0))"
  have a: "detect ?w = detect (setup_gpio ?w)" by (simp add: setup_gpio_def emit_def)
  have b: "lastcall ?w = None \<or> (\<exists>t0. lastcall ?w = Some t0 \<and> t0 + 200 < 1000)"
    by (simp add: setup_gpio_def emit_def initial_def)
  have c: "active ?w" by (simp add: setup_gpio_def emit_def initial_def)
  from toggle_debounce [OF a b, of _ _ 1300 1150] c show ?thesis by simp
qed

end
